theory Spec2Isabelle
  imports Complex_Main
begin

section \<open>Tensors and the two reductions of \<open>run_dnabert.py\<close>\<close>

text \<open>
  The script reduces the hidden states of one sequence, a tensor of shape \<open>(n, D)\<close>, along
  dimension 0, once with \<open>torch.mean\<close> (line 60) and once with \<open>torch.max\<close> (line 63). A
  tensor of that shape is its width \<open>D\<close> together with its \<open>n\<close> rows; the width is kept apart
  from the rows because a tensor of shape \<open>(0, D)\<close> still has a width. The elements of a
  hidden-state tensor are finite float32 values, each taken as the real number it denotes.
\<close>

datatype tensor2 = Tensor2 (ncols: nat) (rows_of: "real list list")

text \<open>Every row of a tensor has the tensor's width.\<close>

definition shape_ok :: "tensor2 \<Rightarrow> bool" where
  "shape_ok h = list_all (\<lambda>r. length r = ncols h) (rows_of h)"

text \<open>
  The result of a float32 operation: a finite value, an infinity after an overflow, or
  NaN.
\<close>

datatype flt = Fin real | PosInf | NegInf | NaN

text \<open>
  The model is loaded with \<open>torch_dtype=torch.float32\<close> (line 41), so the mean is computed
  in floating point: the sum of a column and its division by the number of rows round,
  and may overflow. In which order the library adds a column up, in which precision it
  accumulates and how it rounds is not in the source. The two operations are therefore
  parameters of the model: \<open>sum32\<close> is the library's float32 sum of the values of one
  column, given in the order of the rows, and \<open>div32\<close> its division of such a sum by a
  count. What is proved below holds for every choice of them.
\<close>

record arith32 =
  sum32 :: "real list \<Rightarrow> flt"
  div32 :: "flt \<Rightarrow> nat \<Rightarrow> flt"

text \<open>A Python exception: its class, whether that class derives from \<open>Exception\<close>, and the
  text \<open>str(e)\<close> gives.\<close>

datatype exn = Exn (exn_class: string) (derives_Exception: bool) (message: string)

text \<open>
  \<open>torch.mean(x, dim=0)\<close> sums every column over the rows and divides every sum by the
  number of rows. Over no rows the sum is zero and the division is \<open>0 / 0\<close>, which is NaN;
  no error is raised.
\<close>

definition torch_sum_dim0 :: "arith32 \<Rightarrow> tensor2 \<Rightarrow> flt list" where
  "torch_sum_dim0 ar h = map (\<lambda>k. sum32 ar (map (\<lambda>r. r ! k) (rows_of h))) [0..<ncols h]"

definition div_count :: "arith32 \<Rightarrow> nat \<Rightarrow> flt \<Rightarrow> flt" where
  "div_count ar n s = (if n = 0 then NaN else div32 ar s n)"

definition torch_mean_dim0 :: "arith32 \<Rightarrow> tensor2 \<Rightarrow> flt list" where
  "torch_mean_dim0 ar h = map (div_count ar (length (rows_of h))) (torch_sum_dim0 ar h)"

text \<open>
  \<open>torch.max(x, dim=0)\<close> returns the pair \<open>(values, indices)\<close>: for every column the largest
  element and the row it was found in. It walks the rows keeping the running maximum and
  its row; a comparison does not round. A reduction over no rows raises.
\<close>

definition max_update :: "nat \<Rightarrow> (real \<times> nat) list \<Rightarrow> real list \<Rightarrow> (real \<times> nat) list" where
  "max_update i acc r = map2 (\<lambda>(m, j) x. if m < x then (x, i) else (m, j)) acc r"

fun max_rows :: "nat \<Rightarrow> (real \<times> nat) list \<Rightarrow> real list list \<Rightarrow> (real \<times> nat) list" where
  "max_rows i acc [] = acc"
| "max_rows i acc (r # rs) = max_rows (Suc i) (max_update i acc r) rs"

definition empty_reduction :: exn where
  "empty_reduction =
     Exn ''IndexError'' True ''max(): Expected reduction dim 0 to have non-zero size.''"

definition torch_max_dim0 :: "tensor2 \<Rightarrow> exn + (real list \<times> nat list)" where
  "torch_max_dim0 h =
     (case rows_of h of
        [] \<Rightarrow> Inl empty_reduction
      | r # rs \<Rightarrow>
          (let acc = max_rows 1 (map (\<lambda>x. (x, 0)) r) rs
           in Inr (map fst acc, map snd acc)))"

text \<open>
  The right-hand sides of lines 60 and 63:
  \<^verbatim>\<open>embedding_mean = torch.mean(hidden_states[0], dim=0)\<close> and
  \<^verbatim>\<open>embedding_max = torch.max(hidden_states[0], dim=0)[0]\<close>, as functions of
  \<open>hidden_states[0]\<close>. The \<open>[0]\<close> after \<open>torch.max\<close> keeps the values and drops the indices.
\<close>

definition embedding_mean :: "arith32 \<Rightarrow> tensor2 \<Rightarrow> flt list" where
  "embedding_mean ar h0 = torch_mean_dim0 ar h0"

definition embedding_max :: "tensor2 \<Rightarrow> exn + real list" where
  "embedding_max h0 =
     (case torch_max_dim0 h0 of Inl e \<Rightarrow> Inl e | Inr (vals, idxs) \<Rightarrow> Inr vals)"

text \<open>
  An arithmetic that never rounds, to run examples on. It agrees with float32 wherever
  the sums and the quotient are float32 values themselves, as in the examples below.
\<close>

definition exact_sum :: "real list \<Rightarrow> flt" where
  "exact_sum xs = Fin (sum_list xs)"

definition exact_div :: "flt \<Rightarrow> nat \<Rightarrow> flt" where
  "exact_div a n = (case a of Fin x \<Rightarrow> Fin (x / real n) | _ \<Rightarrow> a)"

definition exact_arith :: arith32 where
  "exact_arith = \<lparr>sum32 = exact_sum, div32 = exact_div\<rparr>"

section \<open>The statements of the script\<close>

text \<open>
  In \<open>run_dnabert.py\<close> the \<^verbatim>\<open>try:\<close> of line 31 is followed by the indented lines 32 to 44,
  which load the tokenizer and the model. Lines 46, 47 and 60 to 64 start at column 0,
  lines 49 to 57 and 66 to 73 are indented again, and the handler
  \<^verbatim>\<open>except Exception as e:\<close> follows at line 75. A statement at column 0 ends the block
  of the \<^verbatim>\<open>try\<close> before any handler, so Python rejects the file as it stands, and no
  statement of it runs. This section therefore does not define a run of the whole file.
  It gives the meaning of the parts as they are written: the two pooling statements with
  their prints (lines 60 to 64), which stand outside the block of the \<^verbatim>\<open>try\<close>; the body
  the \<^verbatim>\<open>try\<close> has (lines 32 to 44); the handler (lines 75 to 83); and what a \<^verbatim>\<open>try\<close> with
  that handler does with the outcome of a body, whatever the body is.
\<close>

type_synonym tensor3 = "tensor2 list"

text \<open>What the script prints, one constructor for each \<^verbatim>\<open>print\<close> of the parts modelled:
  line 29, line 61, line 64, line 76, and lines 77 to 83 by their line number.\<close>

datatype event =
    Loading
  | MeanShape nat
  | MaxShape nat
  | ErrorLine string
  | AdviceLine nat

text \<open>
  \<^verbatim>\<open>print\<close> writes to the standard output and can itself raise, for example when the
  output is a closed pipe. Whether the write of an event fails, given what was written
  before, is a parameter; a failed write leaves the output as it was.
\<close>

type_synonym fault = "event list \<Rightarrow> event \<Rightarrow> exn option"

definition print_line :: "fault \<Rightarrow> event \<Rightarrow> event list \<Rightarrow> exn option \<times> event list" where
  "print_line pf ev out =
     (case pf out ev of Some x \<Rightarrow> (Some x, out) | None \<Rightarrow> (None, out @ [ev]))"


text \<open>\<open>x[0]\<close> on the first dimension of a tensor: an empty dimension raises.\<close>

definition getitem0 :: "'a list \<Rightarrow> exn + 'a" where
  "getitem0 xs =
     (case xs of
        [] \<Rightarrow> Inl (Exn ''IndexError'' True
                 ''index 0 is out of bounds for dimension 0 with size 0'')
      | x # _ \<Rightarrow> Inr x)"

text \<open>What lines 60 to 64 leave behind: the exception that ended them, if one did, the
  output, and the values of \<open>embedding_mean\<close> and \<open>embedding_max\<close> if they were assigned.\<close>

record run =
  raised :: "exn option"
  stdout :: "event list"
  bound_mean :: "flt list option"
  bound_max :: "real list option"

text \<open>
  Lines 60 to 64, from \<open>hidden_states\<close> on: assign \<open>embedding_mean\<close>, print its shape, assign
  \<open>embedding_max\<close>, print its shape. Both assignments index \<open>hidden_states[0]\<close>, which
  nothing changes in between. The statements stand at column 0, outside the block of the
  \<^verbatim>\<open>try\<close>: an exception raised by one of them ends the sequence and is not handled.
\<close>

definition pool_stage :: "fault \<Rightarrow> arith32 \<Rightarrow> tensor3 \<Rightarrow> event list \<Rightarrow> run" where
  "pool_stage pf ar hidden_states out =
     (case getitem0 hidden_states of
        Inl e \<Rightarrow> \<lparr>raised = Some e, stdout = out, bound_mean = None, bound_max = None\<rparr>
      | Inr h0 \<Rightarrow>
          (let em = embedding_mean ar h0
           in case print_line pf (MeanShape (length em)) out of
                (Some e, out1) \<Rightarrow>
                  \<lparr>raised = Some e, stdout = out1, bound_mean = Some em, bound_max = None\<rparr>
              | (None, out1) \<Rightarrow>
                  (case embedding_max h0 of
                     Inl e \<Rightarrow>
                       \<lparr>raised = Some e, stdout = out1, bound_mean = Some em,
                        bound_max = None\<rparr>
                   | Inr ex \<Rightarrow>
                       (case print_line pf (MaxShape (length ex)) out1 of
                          (r, out2) \<Rightarrow>
                            \<lparr>raised = r, stdout = out2, bound_mean = Some em,
                             bound_max = Some ex\<rparr>))))"







section \<open>Example environments\<close>

text \<open>An output that takes every write, and one that is a closed pipe.\<close>

definition quiet :: fault where
  "quiet out ev = None"




text \<open>A tokenizer to run the prediction service on. Its state counts the calls made to
  it; it maps every character to its code and puts the sentinel ids 1 and 2 around them.\<close>

type_synonym inputs = "int list"

definition toy_tokenizer :: "string \<Rightarrow> nat \<Rightarrow> (exn + inputs) \<times> nat" where
  "toy_tokenizer dna s = (Inr (1 # map (\<lambda>c. int (of_char c)) dna @ [2]), Suc s)"

section \<open>The validator and the prediction service\<close>

text \<open>
  \<open>test_api.py\<close> posts sequences to a \<open>/predict\<close> endpoint; the server behind it, with its
  validator, is not among the source files. The definitions of this section are written
  from the specification, sections 4.1, 4.4, 4.5 and 7.
\<close>

text \<open>Modelled from the spec: the error taxonomy of section 7; the source has no
  \<open>ErrorKind\<close>. \<open>InvalidCharacter\<close> carries the offending character and its index.\<close>

datatype error_kind =
    Empty
  | TooShort
  | TooLong
  | InvalidCharacter char nat
  | TokenizationFailure
  | InferenceFailure
  | EmptyMatrix
  | ModelUnavailable
  | Timeout

text \<open>Modelled from the spec: the policy constant of section 4.1, missing from the source.\<close>

definition MIN_LEN :: nat where
  "MIN_LEN = 6"

text \<open>Modelled from the spec: "trimming whitespace" of section 4.1, read as removing the
  ASCII whitespace characters at both ends; the source has no trimming.\<close>

definition is_space :: "char \<Rightarrow> bool" where
  "is_space c = (c \<in> set [CHR '' '', CHR 0x09, CHR 0x0A, CHR 0x0B, CHR 0x0C, CHR 0x0D])"

text \<open>Modelled from the spec: the trimming of section 4.1, missing from the source.\<close>

definition trim :: "string \<Rightarrow> string" where
  "trim s = rev (dropWhile is_space (rev (dropWhile is_space s)))"

text \<open>Modelled from the spec: "normalizes case to uppercase" of section 4.1, on the ASCII
  letters; the source has no normalisation.\<close>

definition to_upper :: "char \<Rightarrow> char" where
  "to_upper c =
     (case map_of (zip ''abcdefghijklmnopqrstuvwxyz'' ''ABCDEFGHIJKLMNOPQRSTUVWXYZ'') c of
        Some u \<Rightarrow> u
      | None \<Rightarrow> c)"

text \<open>Modelled from the spec: the case-normalised input of section 4.1, every character
  in upper case and at its place in the raw input; missing from the source.\<close>

definition normalise :: "string \<Rightarrow> string" where
  "normalise raw = map to_upper raw"

text \<open>Modelled from the spec: the search for a character outside \<open>{A, C, G, T}\<close> of section
  4.1, from index \<open>i\<close> on, giving the first such character and its index; missing from the
  source.\<close>

fun first_invalid :: "nat \<Rightarrow> string \<Rightarrow> (char \<times> nat) option" where
  "first_invalid i [] = None"
| "first_invalid i (c # cs) =
     (if c \<in> set ''ACGT'' then first_invalid (Suc i) cs else Some (c, i))"

text \<open>Modelled from the spec: \<open>validate\<close> of section 4.1, the checks in the order the section
  lists them, with the ceiling \<open>MAX_LEN\<close> of the configuration as a parameter; the source has
  no validator. The section trims for the emptiness check and does not say which length
  it compares or where an index counts from: the length is the one of the trimmed,
  case-normalised form, and the alphabet is checked on every character of the
  case-normalised input, the index counting from the start of the raw input.\<close>

definition validate :: "nat \<Rightarrow> string \<Rightarrow> error_kind + string" where
  "validate max_len raw =
     (let s = normalise raw; t = trim s
      in if t = [] then Inl Empty
         else if length t < MIN_LEN then Inl TooShort
         else if max_len < length t then Inl TooLong
         else (case first_invalid 0 s of
                 Some (c, i) \<Rightarrow> Inl (InvalidCharacter c i)
               | None \<Rightarrow> Inr s))"

text \<open>Modelled from the spec: the two capabilities the service consumes, sections 4.2 and
  4.3, the configured \<open>MAX_LEN\<close>, and the float32 arithmetic of the backend. A call takes and
  returns the state of the backend. The tokenizer fails with an exception, inference with
  its own error kind.\<close>

record 's service =
  tokenize :: "string \<Rightarrow> 's \<Rightarrow> (exn + inputs) \<times> 's"
  infer :: "inputs \<Rightarrow> 's \<Rightarrow> (error_kind + tensor2) \<times> 's"
  max_len :: nat
  arith :: arith32

text \<open>Modelled from the spec: the calls a request makes to the two capabilities, as the
  call-count assertions of section 8 observe them.\<close>

datatype call = TokenizeCall string | InferCall inputs

text \<open>Modelled from the spec: the \<open>PredictionResult\<close> of section 3.\<close>

record prediction_result =
  result_sequence :: string
  result_mean :: "flt list"
  result_max :: "real list"
  token_count :: nat

text \<open>Modelled from the spec: \<open>pool\<close> of section 4.4 for both strategies, with its check
  for a matrix without rows, which the source does not have; the mean of a column is the
  float32 mean of the backend, the maximum of a column is taken row after row.\<close>

definition pool :: "arith32 \<Rightarrow> tensor2 \<Rightarrow> error_kind + (flt list \<times> real list)" where
  "pool ar h =
     (case rows_of h of
        [] \<Rightarrow> Inl EmptyMatrix
      | r # rs \<Rightarrow>
          Inr (torch_mean_dim0 ar h,
               map (\<lambda>k. fold max (map (\<lambda>q. q ! k) rs) (r ! k)) [0..<ncols h]))"

text \<open>Modelled from the spec: \<open>predict\<close> of section 4.5, the stages in order, a failure
  ending the request at its stage; beside the result it returns the calls it made. The
  source has no such function.\<close>

definition predict ::
  "'s service \<Rightarrow> string \<Rightarrow> 's \<Rightarrow> ((error_kind + prediction_result) \<times> call list) \<times> 's" where
  "predict svc raw s =
     (case validate (max_len svc) raw of
        Inl k \<Rightarrow> ((Inl k, []), s)
      | Inr sq \<Rightarrow>
          (case tokenize svc sq s of
             (Inl e, s1) \<Rightarrow> ((Inl TokenizationFailure, [TokenizeCall sq]), s1)
           | (Inr toks, s1) \<Rightarrow>
               (case infer svc toks s1 of
                  (Inl k, s2) \<Rightarrow> ((Inl k, [TokenizeCall sq, InferCall toks]), s2)
                | (Inr h, s2) \<Rightarrow>
                    (case pool (arith svc) h of
                       Inl k \<Rightarrow> ((Inl k, [TokenizeCall sq, InferCall toks]), s2)
                     | Inr (em, ex) \<Rightarrow>
                         ((Inr \<lparr>result_sequence = sq, result_mean = em, result_max = ex,
                                 token_count = length toks\<rparr>,
                           [TokenizeCall sq, InferCall toks]), s2)))))"

text \<open>Services to run \<open>predict\<close> on, over the example tokenizer: one with a ceiling of
  512 and one with a ceiling of 8.\<close>

definition toy_infer :: "inputs \<Rightarrow> nat \<Rightarrow> (error_kind + tensor2) \<times> nat" where
  "toy_infer inp s = (Inr (Tensor2 2 (map (\<lambda>t. [real_of_int t, 1]) inp)), Suc s)"

definition toy_service :: "nat service" where
  "toy_service =
     \<lparr>tokenize = toy_tokenizer, infer = toy_infer, max_len = 512, arith = exact_arith\<rparr>"

definition short_service :: "nat service" where
  "short_service =
     \<lparr>tokenize = toy_tokenizer, infer = toy_infer, max_len = 8, arith = exact_arith\<rparr>"

section \<open>Properties of the reductions\<close>

lemma length_torch_sum_dim0: "length (torch_sum_dim0 ar h) = ncols h"
  by (simp add: torch_sum_dim0_def)

lemma nth_torch_sum_dim0:
  "k < ncols h \<Longrightarrow> torch_sum_dim0 ar h ! k = sum32 ar (map (\<lambda>r. r ! k) (rows_of h))"
  by (simp add: torch_sum_dim0_def)

text \<open>Component \<open>k\<close> of the mean is computed from the \<open>k\<close>-th components of all rows and
  from their number.\<close>

lemma nth_embedding_mean:
  assumes "rows_of h \<noteq> []" and "k < ncols h"
  shows "embedding_mean ar h ! k
       = div32 ar (sum32 ar (map (\<lambda>r. r ! k) (rows_of h))) (length (rows_of h))"
  using assms
  by (simp add: embedding_mean_def torch_mean_dim0_def div_count_def
      length_torch_sum_dim0 nth_torch_sum_dim0)

lemma length_max_update:
  "length r = length acc \<Longrightarrow> length (max_update i acc r) = length acc"
  by (simp add: max_update_def)

lemma fst_nth_max_update:
  "length r = length acc \<Longrightarrow> k < length acc \<Longrightarrow>
     fst (max_update i acc r ! k) = max (fst (acc ! k)) (r ! k)"
  by (simp add: max_update_def split: prod.splits)

lemma length_max_rows:
  "list_all (\<lambda>r. length r = length acc) rs \<Longrightarrow> length (max_rows i acc rs) = length acc"
proof (induction rs arbitrary: i acc)
  case Nil
  then show ?case by simp
next
  case (Cons r rs)
  then show ?case by (simp add: length_max_update)
qed

lemma fst_nth_max_rows:
  "list_all (\<lambda>r. length r = length acc) rs \<Longrightarrow> k < length acc \<Longrightarrow>
     fst (max_rows i acc rs ! k) = Max (insert (fst (acc ! k)) ((\<lambda>r. r ! k) ` set rs))"
proof (induction rs arbitrary: i acc)
  case Nil
  then show ?case by simp
next
  case (Cons r rs)
  from Cons.prems have len: "length r = length acc"
    and rest: "list_all (\<lambda>q. length q = length (max_update i acc r)) rs"
    by (simp_all add: length_max_update)
  have k': "k < length (max_update i acc r)"
    using Cons.prems(2) len by (simp add: length_max_update)
  have "fst (max_rows (Suc i) (max_update i acc r) rs ! k)
      = Max (insert (max (fst (acc ! k)) (r ! k)) ((\<lambda>q. q ! k) ` set rs))"
    using Cons.IH [OF rest k'] Cons.prems(2) len by (simp add: fst_nth_max_update)
  also have "\<dots> = Max (insert (fst (acc ! k)) (insert (r ! k) ((\<lambda>q. q ! k) ` set rs)))"
    by (cases "rs = []") (simp_all add: max.assoc)
  finally show ?case by simp
qed

lemma torch_max_dim0_values:
  assumes "shape_ok h" and "rows_of h \<noteq> []"
  shows "\<exists>vals idxs. torch_max_dim0 h = Inr (vals, idxs) \<and> length vals = ncols h \<and>
     (\<forall>k<ncols h. vals ! k = Max ((\<lambda>r. r ! k) ` set (rows_of h)))"
proof -
  from assms(2) obtain r rs where rows: "rows_of h = r # rs"
    by (cases "rows_of h") auto
  let ?acc = "map (\<lambda>x. (x, 0::nat)) r"
  from assms(1) rows have lr: "length r = ncols h"
    and all: "list_all (\<lambda>q. length q = length ?acc) rs"
    by (simp_all add: shape_ok_def)
  have len: "length (max_rows 1 ?acc rs) = ncols h"
    using length_max_rows [OF all] lr by simp
  have vals: "map fst (max_rows 1 ?acc rs) ! k = Max ((\<lambda>q. q ! k) ` set (rows_of h))"
    if "k < ncols h" for k
    using fst_nth_max_rows [OF all, of k 1] that lr len rows by simp
  show ?thesis
    using len vals by (simp add: torch_max_dim0_def rows Let_def)
qed

lemma shape_ok_example: "shape_ok (Tensor2 2 [[1, 5], [3, 9], [8, 1]])"
  by (simp add: shape_ok_def)

lemma embedding_max_example:
  "embedding_max (Tensor2 2 [[1, 5], [3, 9], [8, 1]]) = Inr [8, 9]"
  by (simp add: embedding_max_def torch_max_dim0_def max_update_def)

lemma embedding_mean_example:
  "embedding_mean exact_arith (Tensor2 2 [[1, 5], [3, 9], [8, 1]]) = [Fin 4, Fin 5]"
  by (simp add: embedding_mean_def torch_mean_dim0_def torch_sum_dim0_def div_count_def
      exact_arith_def exact_sum_def exact_div_def numeral_2_eq_2)

text \<open>
  C2. Max pooling of a hidden-state matrix with at least one row returns, for every
  dimension \<open>k\<close>, the maximum of the \<open>k\<close>-th components of all rows. The result is the
  first component of the pair \<open>torch.max\<close> yields: the values, without the row indices.
\<close>

theorem embedding_max_is_column_max:
  assumes "shape_ok h" and "rows_of h \<noteq> []" and "k < ncols h"
  shows "\<exists>vals idxs. torch_max_dim0 h = Inr (vals, idxs) \<and> embedding_max h = Inr vals
           \<and> vals ! k = Max ((\<lambda>r. r ! k) ` set (rows_of h))"
proof -
  from torch_max_dim0_values [OF assms(1,2)] obtain vals idxs where
    t: "torch_max_dim0 h = Inr (vals, idxs)" and
    v: "\<forall>k<ncols h. vals ! k = Max ((\<lambda>r. r ! k) ` set (rows_of h))"
    by blast
  have "embedding_max h = Inr vals" by (simp add: embedding_max_def t)
  with t v assms(3) show ?thesis by blast
qed

theorem embedding_max_is_column_max_witness:
  "shape_ok (Tensor2 2 [[1, 5], [3, 9], [8, 1]])
   \<and> rows_of (Tensor2 2 [[1, 5], [3, 9], [8, 1]]) \<noteq> []
   \<and> (0::nat) < ncols (Tensor2 2 [[1, 5], [3, 9], [8, 1]])
   \<and> (\<exists>vals idxs. torch_max_dim0 (Tensor2 2 [[1, 5], [3, 9], [8, 1]]) = Inr (vals, idxs)
        \<and> embedding_max (Tensor2 2 [[1, 5], [3, 9], [8, 1]]) = Inr vals
        \<and> vals ! 0 = 8)"
proof -
  have ne: "rows_of (Tensor2 2 [[1, 5], [3, 9], [8, 1]]) \<noteq> []" by simp
  have k: "(0::nat) < ncols (Tensor2 2 [[1, 5], [3, 9], [8, 1]])" by simp
  show ?thesis
    using shape_ok_example ne k embedding_max_is_column_max [OF shape_ok_example ne k]
    by simp
qed

text \<open>
  C10. For a hidden-state matrix of width \<open>D\<close> with at least one row, the mean embedding
  and the max embedding both have exactly \<open>D\<close> components, whatever the number of rows
  and however the float32 arithmetic rounds.
\<close>

theorem embedding_lengths:
  assumes "shape_ok h" and "rows_of h \<noteq> []"
  shows "length (embedding_mean ar h) = ncols h
       \<and> (\<exists>vals. embedding_max h = Inr vals \<and> length vals = ncols h)"
proof -
  from torch_max_dim0_values [OF assms] obtain vals idxs where
    t: "torch_max_dim0 h = Inr (vals, idxs)" and l: "length vals = ncols h"
    by blast
  have "embedding_max h = Inr vals" by (simp add: embedding_max_def t)
  moreover have "length (embedding_mean ar h) = ncols h"
    by (simp add: embedding_mean_def torch_mean_dim0_def length_torch_sum_dim0)
  ultimately show ?thesis using l by simp
qed

theorem embedding_lengths_witness:
  "shape_ok (Tensor2 2 [[1, 5], [3, 9], [8, 1]])
   \<and> rows_of (Tensor2 2 [[1, 5], [3, 9], [8, 1]]) \<noteq> []
   \<and> length (embedding_mean exact_arith (Tensor2 2 [[1, 5], [3, 9], [8, 1]])) = 2
   \<and> (\<exists>vals. embedding_max (Tensor2 2 [[1, 5], [3, 9], [8, 1]]) = Inr vals \<and> length vals = 2)"
proof -
  have ne: "rows_of (Tensor2 2 [[1, 5], [3, 9], [8, 1]]) \<noteq> []" by simp
  show ?thesis
    using shape_ok_example ne embedding_lengths [OF shape_ok_example ne, of exact_arith]
    by simp
qed




section \<open>Properties of the pooling statements\<close>

text \<open>
  C9. The hidden states carry a batch dimension and both pooling statements read
  \<open>hidden_states[0]\<close> only: replacing any batch element other than the first changes
  neither embedding, nor what is printed, nor whether the statements fail.
\<close>

theorem pooling_reads_batch_element_0:
  assumes "0 < i"
  shows "pool_stage pf ar (hs[i := t]) out = pool_stage pf ar hs out"
proof (cases hs)
  case Nil
  then show ?thesis by simp
next
  case (Cons h0 rest)
  from assms obtain j where "i = Suc j" by (cases i) auto
  with Cons show ?thesis by (simp add: pool_stage_def getitem0_def)
qed

lemma pool_stage_example:
  "pool_stage quiet exact_arith (Tensor2 2 [[1, 5], [3, 9], [8, 1]] # hs) out
     = \<lparr>raised = None, stdout = out @ [MeanShape 2, MaxShape 2],
        bound_mean = Some [Fin 4, Fin 5], bound_max = Some [8, 9]\<rparr>"
  by (simp add: pool_stage_def getitem0_def embedding_mean_example embedding_max_example
      print_line_def quiet_def Let_def)

theorem pooling_reads_batch_element_0_witness:
  "(0::nat) < 1
   \<and> pool_stage quiet exact_arith
        ([Tensor2 2 [[1, 5], [3, 9], [8, 1]], Tensor2 2 [[7, 7]]][1 := Tensor2 2 [[0, 0]]]) []
       = pool_stage quiet exact_arith
           [Tensor2 2 [[1, 5], [3, 9], [8, 1]], Tensor2 2 [[7, 7]]] []
   \<and> bound_mean (pool_stage quiet exact_arith
        [Tensor2 2 [[1, 5], [3, 9], [8, 1]], Tensor2 2 [[0, 0]]] []) = Some [Fin 4, Fin 5]
   \<and> bound_max (pool_stage quiet exact_arith
        [Tensor2 2 [[1, 5], [3, 9], [8, 1]], Tensor2 2 [[0, 0]]] []) = Some [8, 9]"
proof -
  have i: "(0::nat) < 1" by simp
  show ?thesis
    using i pooling_reads_batch_element_0 [OF i, of quiet exact_arith
        "[Tensor2 2 [[1, 5], [3, 9], [8, 1]], Tensor2 2 [[7, 7]]]" "Tensor2 2 [[0, 0]]" "[]"]
    by (simp add: pool_stage_example)
qed

text \<open>
  C6. The pooling statements take the first batch element of the hidden states as the
  model returned it, with the rows of any sentinel tokens. Once the shape of the mean has
  been printed, both embeddings are assigned; component \<open>k\<close> of the mean is the library's
  sum of the \<open>k\<close>-th components of all rows divided by the number of all rows, and the
  maximum ranges over all rows, so every row is below it.
\<close>

theorem pooling_covers_all_rows:
  assumes ok: "shape_ok h0" and ne: "rows_of h0 \<noteq> []" and k: "k < ncols h0"
    and pr: "pf out (MeanShape (ncols h0)) = None"
  shows "\<exists>em ex. bound_mean (pool_stage pf ar (h0 # hs) out) = Some em
           \<and> bound_max (pool_stage pf ar (h0 # hs) out) = Some ex
           \<and> em ! k = div32 ar (sum32 ar (map (\<lambda>r. r ! k) (rows_of h0)))
                        (length (rows_of h0))
           \<and> ex ! k = Max ((\<lambda>r. r ! k) ` set (rows_of h0))
           \<and> (\<forall>r \<in> set (rows_of h0). r ! k \<le> ex ! k)"
proof -
  from torch_max_dim0_values [OF ok ne] obtain vals idxs where
    t: "torch_max_dim0 h0 = Inr (vals, idxs)" and
    v: "\<forall>k<ncols h0. vals ! k = Max ((\<lambda>r. r ! k) ` set (rows_of h0))"
    by blast
  have x: "embedding_max h0 = Inr vals" by (simp add: embedding_max_def t)
  have l: "length (embedding_mean ar h0) = ncols h0"
    by (simp add: embedding_mean_def torch_mean_dim0_def length_torch_sum_dim0)
  have bm: "bound_mean (pool_stage pf ar (h0 # hs) out) = Some (embedding_mean ar h0)"
    and bx: "bound_max (pool_stage pf ar (h0 # hs) out) = Some vals"
    by (simp_all add: pool_stage_def getitem0_def print_line_def l pr x Let_def
        split: prod.splits)
  have vk: "vals ! k = Max ((\<lambda>r. r ! k) ` set (rows_of h0))" using v k by simp
  have "\<forall>r \<in> set (rows_of h0). r ! k \<le> vals ! k"
    unfolding vk by simp
  with bm bx nth_embedding_mean [OF ne k, of ar] vk show ?thesis by simp
qed

lemma shape_ok_AC: "shape_ok (Tensor2 2 [[1, 1], [65, 1], [67, 1], [2, 1]])"
  by (simp add: shape_ok_def)

lemma embedding_mean_AC:
  "embedding_mean exact_arith (Tensor2 2 [[1, 1], [65, 1], [67, 1], [2, 1]])
     = [Fin (135 / 4), Fin 1]"
  by (simp add: embedding_mean_def torch_mean_dim0_def torch_sum_dim0_def div_count_def
      exact_arith_def exact_sum_def exact_div_def numeral_2_eq_2)

lemma embedding_max_AC:
  "embedding_max (Tensor2 2 [[1, 1], [65, 1], [67, 1], [2, 1]]) = Inr [67, 1]"
  by (simp add: embedding_max_def torch_max_dim0_def max_update_def)

lemma pool_stage_AC:
  "pool_stage quiet exact_arith [Tensor2 2 [[1, 1], [65, 1], [67, 1], [2, 1]]] []
     = \<lparr>raised = None, stdout = [MeanShape 2, MaxShape 2],
        bound_mean = Some [Fin (135 / 4), Fin 1], bound_max = Some [67, 1]\<rparr>"
  by (simp add: pool_stage_def getitem0_def embedding_mean_AC embedding_max_AC
      print_line_def quiet_def Let_def)

theorem pooling_covers_all_rows_witness:
  "shape_ok (Tensor2 2 [[1, 1], [65, 1], [67, 1], [2, 1]])
   \<and> rows_of (Tensor2 2 [[1, 1], [65, 1], [67, 1], [2, 1]]) \<noteq> []
   \<and> (0::nat) < ncols (Tensor2 2 [[1, 1], [65, 1], [67, 1], [2, 1]])
   \<and> quiet [] (MeanShape (ncols (Tensor2 2 [[1, 1], [65, 1], [67, 1], [2, 1]]))) = None
   \<and> (\<exists>em ex.
        bound_mean (pool_stage quiet exact_arith
          [Tensor2 2 [[1, 1], [65, 1], [67, 1], [2, 1]]] []) = Some em
        \<and> bound_max (pool_stage quiet exact_arith
          [Tensor2 2 [[1, 1], [65, 1], [67, 1], [2, 1]]] []) = Some ex
        \<and> em ! 0 = Fin (135 / 4) \<and> ex ! 0 = 67)"
proof -
  have ne: "rows_of (Tensor2 2 [[1, 1], [65, 1], [67, 1], [2, 1]]) \<noteq> []" by simp
  have k: "(0::nat) < ncols (Tensor2 2 [[1, 1], [65, 1], [67, 1], [2, 1]])" by simp
  have pr: "quiet [] (MeanShape (ncols (Tensor2 2 [[1, 1], [65, 1], [67, 1], [2, 1]]))) = None"
    by (simp add: quiet_def)
  from pooling_covers_all_rows [where pf = quiet and out = "[]" and ar = exact_arith
      and hs = "[]", OF shape_ok_AC ne k pr]
  have "\<exists>em ex.
        bound_mean (pool_stage quiet exact_arith
          [Tensor2 2 [[1, 1], [65, 1], [67, 1], [2, 1]]] []) = Some em
        \<and> bound_max (pool_stage quiet exact_arith
          [Tensor2 2 [[1, 1], [65, 1], [67, 1], [2, 1]]] []) = Some ex
        \<and> em ! 0 = Fin (135 / 4) \<and> ex ! 0 = 67"
    by (simp add: pool_stage_AC)
  with shape_ok_AC ne k pr show ?thesis by blast
qed

section \<open>Properties of the handler\<close>









section \<open>Properties of the validator and the prediction service\<close>

lemma first_invalid_at:
  assumes "i < length s" and "s ! i \<notin> set ''ACGT''"
    and "list_all (\<lambda>c. c \<in> set ''ACGT'') (take i s)"
  shows "first_invalid n s = Some (s ! i, n + i)"
  using assms
proof (induction s arbitrary: i n)
  case Nil
  then show ?case by simp
next
  case (Cons c cs)
  show ?case
  proof (cases i)
    case 0
    with Cons.prems show ?thesis by simp
  next
    case (Suc j)
    with Cons.prems have "j < length cs" "cs ! j \<notin> set ''ACGT''"
      "list_all (\<lambda>c. c \<in> set ''ACGT'') (take j cs)" "c \<in> set ''ACGT''"
      by simp_all
    with Cons.IH [of j "Suc n"] Suc show ?thesis by simp
  qed
qed

lemma trim_normalise_empty: "trim (normalise '''') = ''''"
  by (simp add: normalise_def trim_def)

lemma trim_spaces: "trim ''  '' = ''''"
  by (simp add: trim_def is_space_def)

lemma normalise_spaces: "normalise ''  '' = ''  ''"
  by (simp add: normalise_def to_upper_def)

lemma normalise_ACGT: "normalise ''ACGT'' = ''ACGT''"
  by (simp add: normalise_def to_upper_def)

lemma trim_ACGT: "trim ''ACGT'' = ''ACGT''"
  by (simp add: trim_def is_space_def)

lemma normalise_ACGN: "normalise ''ACGN'' = ''ACGN''"
  by (simp add: normalise_def to_upper_def)

lemma trim_ACGN: "trim ''ACGN'' = ''ACGN''"
  by (simp add: trim_def is_space_def)

lemma normalise_long: "normalise ''ACGTACGTN'' = ''ACGTACGTN''"
  by (simp add: normalise_def to_upper_def)

lemma trim_long: "trim ''ACGTACGTN'' = ''ACGTACGTN''"
  by (simp add: trim_def is_space_def)

lemma normalise_scenario2:
  "normalise ''ttttaaaacccgggggnnnn'' = ''TTTTAAAACCCGGGGGNNNN''"
  by (simp add: normalise_def to_upper_def)

lemma trim_scenario2: "trim ''TTTTAAAACCCGGGGGNNNN'' = ''TTTTAAAACCCGGGGGNNNN''"
  by (simp add: trim_def is_space_def)

text \<open>
  C4, as the claim states it, fails on the empty string: its trimmed length is 0, below
  6, and \<open>predict\<close> returns \<open>Empty\<close>, not \<open>TooShort\<close>.
\<close>

theorem too_short_counterexample:
  "length (trim (normalise '''')) < 6 \<and> predict toy_service '''' 0 = ((Inl Empty, []), 0)"
  by (simp add: trim_normalise_empty predict_def validate_def)

text \<open>
  C4, amended. For every raw input whose trimmed, case-normalised form is shorter than
  6, \<open>predict\<close> makes no call to the tokenizer or to the model and leaves the backend as
  it was; it returns \<open>TooShort\<close>, except that an input which is empty after trimming
  returns \<open>Empty\<close>.
\<close>

theorem predict_too_short:
  assumes "length (trim (normalise raw)) < 6"
  shows "predict svc raw s
       = ((Inl (if trim (normalise raw) = [] then Empty else TooShort), []), s)"
  using assms by (simp add: predict_def validate_def MIN_LEN_def Let_def)

theorem predict_too_short_witness:
  "length (trim (normalise ''ACGT'')) < 6
   \<and> predict toy_service ''ACGT'' 0 = ((Inl TooShort, []), 0)
   \<and> length (trim (normalise ''  '')) < 6
   \<and> predict toy_service ''  '' 0 = ((Inl Empty, []), 0)"
proof -
  have a: "length (trim (normalise ''ACGT'')) < 6" by (simp add: normalise_ACGT trim_ACGT)
  have b: "length (trim (normalise ''  '')) < 6" by (simp add: normalise_spaces trim_spaces)
  show ?thesis
    using a b predict_too_short [OF a, of toy_service 0] predict_too_short [OF b, of toy_service 0]
    by (simp add: normalise_ACGT trim_ACGT normalise_spaces trim_spaces)
qed

text \<open>
  C5, as the claim states it, fails on three inputs that each contain a character outside
  \<open>{A, C, G, T}\<close>: \<open>ACGN\<close> is reported \<open>TooShort\<close>; \<open>ACGTACGTN\<close>, under a ceiling of 8, is
  reported \<open>TooLong\<close>; and two blanks are reported \<open>Empty\<close>. The validator checks emptiness
  and length before the alphabet.
\<close>

theorem invalid_character_counterexample:
  "CHR ''N'' \<in> set (normalise ''ACGN'') \<and> CHR ''N'' \<notin> set ''ACGT''
   \<and> predict toy_service ''ACGN'' 0 = ((Inl TooShort, []), 0)
   \<and> CHR ''N'' \<in> set (normalise ''ACGTACGTN'')
   \<and> predict short_service ''ACGTACGTN'' 0 = ((Inl TooLong, []), 0)
   \<and> CHR '' '' \<in> set (normalise ''  '') \<and> CHR '' '' \<notin> set ''ACGT''
   \<and> predict toy_service ''  '' 0 = ((Inl Empty, []), 0)"
  by (simp add: normalise_ACGN trim_ACGN normalise_long trim_long normalise_spaces
      trim_spaces predict_def validate_def MIN_LEN_def short_service_def
      toy_service_def Let_def)

text \<open>
  C5, amended. For every raw input that contains, after case normalisation, a character
  outside \<open>{A, C, G, T}\<close>, \<open>predict\<close> makes no call to the tokenizer or to the model; when the
  trimmed form has a length between 6 and \<open>MAX_LEN\<close> it returns \<open>InvalidCharacter\<close> with the
  first such character and the index of its first occurrence in the input, and otherwise
  it returns \<open>Empty\<close>, \<open>TooShort\<close> or \<open>TooLong\<close>, whichever check of the validator fails first.
\<close>

theorem predict_invalid_character:
  assumes "i < length raw" and "normalise raw ! i \<notin> set ''ACGT''"
    and "list_all (\<lambda>c. c \<in> set ''ACGT'') (take i (normalise raw))"
  shows "predict svc raw s
       = ((Inl (if trim (normalise raw) = [] then Empty
                else if length (trim (normalise raw)) < 6 then TooShort
                else if max_len svc < length (trim (normalise raw)) then TooLong
                else InvalidCharacter (normalise raw ! i) i), []), s)"
proof -
  have "i < length (normalise raw)" using assms(1) by (simp add: normalise_def)
  from first_invalid_at [OF this assms(2,3), of 0]
  have f: "first_invalid 0 (normalise raw) = Some (normalise raw ! i, i)" by simp
  show ?thesis
    by (simp add: predict_def validate_def MIN_LEN_def Let_def f)
qed

theorem predict_invalid_character_witness:
  "16 < length ''ttttaaaacccgggggnnnn''
   \<and> normalise ''ttttaaaacccgggggnnnn'' ! 16 \<notin> set ''ACGT''
   \<and> list_all (\<lambda>c. c \<in> set ''ACGT'') (take 16 (normalise ''ttttaaaacccgggggnnnn''))
   \<and> predict toy_service ''ttttaaaacccgggggnnnn'' 0
       = ((Inl (InvalidCharacter CHR ''N'' 16), []), 0)"
proof -
  have c: "16 < length ''ttttaaaacccgggggnnnn''" by simp
  have d: "normalise ''ttttaaaacccgggggnnnn'' ! 16 \<notin> set ''ACGT''"
    by (simp add: normalise_scenario2)
  have e: "list_all (\<lambda>c. c \<in> set ''ACGT'') (take 16 (normalise ''ttttaaaacccgggggnnnn''))"
    by (simp add: normalise_scenario2)
  show ?thesis
    using c d e predict_invalid_character [OF c d e, of toy_service 0]
    by (simp add: normalise_scenario2 trim_scenario2 toy_service_def)
qed

end
